theory Spec2Isabelle
  imports Main
begin

section \<open>JavaScript values and errors\<close>

text \<open>
  The fragment of JavaScript values that reaches the constructors and the token manager:
  \<open>undefined\<close>, \<open>null\<close>, booleans, strings and arrays. Numbers and plain objects are
  left out: no call site of the library passes them.
\<close>

datatype jsval = JUndefined | JNull | JBool bool | JStr string | JArr "jsval list"

text \<open>
  Rejections and thrown exceptions. \<open>Error msg\<close> is \<open>new Error(msg)\<close>; \<open>TypeError\<close> is what
  the engine throws when a property of \<open>undefined\<close> is read or a non-function is called;
  \<open>AuthenticationFailed\<close> is the class of \<open>lib/Errors/AuthenticationFailed.js\<close>;
  \<open>JsonWebTokenError\<close> stands for the failures of the signing library.
\<close>

datatype error = Error string | TypeError | AuthenticationFailed | JsonWebTokenError string

text \<open>\<open>Array.prototype.join\<close> with a separator, on strings.\<close>

fun join :: "string \<Rightarrow> string list \<Rightarrow> string" where
  "join sep [] = []"
| "join sep [x] = x"
| "join sep (x # y # ys) = x @ sep @ join sep (y # ys)"

text \<open>\<open>String(v)\<close>: inside an array, \<open>null\<close> and \<open>undefined\<close> print as the empty string.\<close>

fun String_js :: "jsval \<Rightarrow> string" where
  "String_js JUndefined = ''undefined''"
| "String_js JNull = ''null''"
| "String_js (JBool b) = (if b then ''true'' else ''false'')"
| "String_js (JStr s) = s"
| "String_js (JArr xs) =
     join '','' (map (\<lambda>x. if x = JUndefined \<or> x = JNull then [] else String_js x) xs)"

text \<open>\<open>Boolean(v)\<close>, which is also the truthiness used by \<open>if (v)\<close> and \<open>!v\<close>.\<close>

fun Boolean_js :: "jsval \<Rightarrow> bool" where
  "Boolean_js JUndefined = False"
| "Boolean_js JNull = False"
| "Boolean_js (JBool b) = b"
| "Boolean_js (JStr s) = (s \<noteq> [])"
| "Boolean_js (JArr xs) = True"

fun isArray :: "jsval \<Rightarrow> bool" where
  "isArray (JArr xs) = True"
| "isArray v = False"

fun array_length :: "jsval \<Rightarrow> nat" where
  "array_length (JArr xs) = length xs"
| "array_length v = 0"

text \<open>A destructured parameter with a default: \<open>undefined\<close> takes the default.\<close>

definition default_param :: "jsval \<Rightarrow> jsval \<Rightarrow> jsval" where
  "default_param d v = (if v = JUndefined then d else v)"

text \<open>
  A parameter documented \<open>?string\<close> with default \<open>null\<close>: \<open>None\<close> is \<open>null\<close> or
  \<open>undefined\<close>. \<open>!v\<close> holds for \<open>null\<close> and for the empty string.
\<close>

definition falsy :: "string option \<Rightarrow> bool" where
  "falsy v = (v = None \<or> v = Some [])"

text \<open>\<open>xs.indexOf(x)\<close>: the first index holding \<open>x\<close>, or \<open>-1\<close>.\<close>

fun indexOf :: "'a list \<Rightarrow> 'a \<Rightarrow> int" where
  "indexOf [] x = -1"
| "indexOf (y # ys) x =
     (if y = x then 0 else (let i = indexOf ys x in if i < 0 then -1 else i + 1))"

text \<open>\<open>xs[i]\<close>: \<open>None\<close> is the \<open>undefined\<close> that an out-of-range read gives.\<close>

definition at :: "'a list \<Rightarrow> int \<Rightarrow> 'a option" where
  "at xs i = (if 0 \<le> i \<and> i < int (length xs) then Some (xs ! nat i) else None)"

section \<open>Value objects\<close>

text \<open>
  \<open>lib/Types/AuthResult.js\<close>. The constructor coerces \<open>token\<close> and \<open>final\<close>, keeps
  \<open>next\<close> as passed, and throws on an empty token or on a non-final result without a
  non-empty array of next methods.
\<close>

record AuthResult =
  result_token :: string
  result_final :: bool
  result_next :: jsval

definition invalid_AuthResult :: string where
  "invalid_AuthResult = ''Invalid AuthResult data passed to the constructor''"

definition AuthResult_new :: "jsval \<Rightarrow> jsval \<Rightarrow> jsval \<Rightarrow> error + AuthResult" where
  "AuthResult_new token0 final0 next0 =
     (let final1 = default_param (JBool True) final0;
          next = default_param JNull next0;
          token = String_js token0;
          final = Boolean_js final1
      in if token = [] \<or> (\<not> final \<and> (\<not> Boolean_js next \<or> \<not> isArray next \<or> array_length next = 0))
         then Inl (Error invalid_AuthResult)
         else Inr \<lparr>result_token = token, result_final = final, result_next = next\<rparr>)"

text \<open>\<open>lib/Types/AuthChallenge.js\<close>.\<close>

record AuthChallenge =
  challenge_content :: jsval
  challenge_method :: string
  challenge_sent :: bool

definition AuthChallenge_new :: "jsval \<Rightarrow> jsval \<Rightarrow> jsval \<Rightarrow> AuthChallenge" where
  "AuthChallenge_new content0 method0 sent0 =
     \<lparr>challenge_content = default_param JNull content0,
      challenge_method = String_js method0,
      challenge_sent = Boolean_js (default_param (JBool False) sent0)\<rparr>"

section \<open>External collaborators\<close>

text \<open>
  The claims the token manager signs and reads back: \<open>{ from, final }\<close>. The signing
  library (\<open>jsonwebtoken\<close>) is not part of the repository; it is a parameter of the model,
  a pair of functions taking the arguments the code passes: payload or token, key, options.
\<close>

record payload =
  claim_from :: string
  claim_final :: bool

record sign_options =
  sign_algorithm :: string
  sign_expiresIn :: string
  sign_subject :: string

record verify_options =
  verify_algorithms :: "string list"
  verify_subject :: string

record JWT =
  JWT_sign :: "payload \<Rightarrow> string \<Rightarrow> sign_options \<Rightarrow> error + string"
  JWT_verify :: "string \<Rightarrow> string \<Rightarrow> verify_options \<Rightarrow> error + payload"

text \<open>
  An authentication back-end owns a state \<open>'s\<close> and is called with \<open>{ subjectID, secret }\<close>
  or \<open>{ subjectID }\<close>; a rejected promise or a thrown exception is \<open>Inl\<close>. A back-end
  without challenges has no \<open>requestChallenge\<close> property.
\<close>

record 's backend =
  backend_authenticate :: "string \<Rightarrow> string \<Rightarrow> 's \<Rightarrow> (error + unit) \<times> 's"
  backend_requestChallenge :: "(string \<Rightarrow> 's \<Rightarrow> (error + AuthChallenge) \<times> 's) option"

text \<open>
  The calls that leave the token manager, in the order they are made: \<open>JWT.verify\<close> on a
  token, \<open>authenticate\<close> and \<open>requestChallenge\<close> on the back-end of a method, \<open>JWT.sign\<close>
  on a payload.
\<close>

datatype event =
    Verify string
  | Authenticate string string string
  | Sign payload
  | RequestChallenge string string

fun is_backend_event :: "event \<Rightarrow> bool" where
  "is_backend_event (Authenticate m u s) = True"
| "is_backend_event (RequestChallenge m u) = True"
| "is_backend_event e = False"

fun is_sign_event :: "event \<Rightarrow> bool" where
  "is_sign_event (Sign p) = True"
| "is_sign_event e = False"

record 's world =
  backend_state :: 's
  trace :: "event list"

section \<open>TokenManager\<close>

text \<open>
  The fields the constructor stores and the methods read (\<open>userDB\<close> and \<open>revokeDB\<close> are
  stored and never read). No method assigns a field.
\<close>

record 's TokenManager =
  authBackends :: "string \<rightharpoonup> 's backend"
  authSteps :: "string list"
  tokenParameters_key :: string

definition final_token_msg :: string where
  "final_token_msg =
     ''The token passed as previous token was a final token - no subsequent authentication is needed''"

definition invalid_previous_step_msg :: string where
  "invalid_previous_step_msg = ''The previous authentication step is invalid''"

definition invalid_method_msg :: string where
  "invalid_method_msg = ''Invalid authentication method selected''"

record verificationResult =
  vr_payload :: "payload option"
  vr_method :: string

text \<open>
  The callback that \<open>_verifyPreviousToken\<close> chains on the verification promise. The
  variable \<open>method\<close> may hold \<open>undefined\<close> after defaulting (a read past the end of
  \<open>authSteps\<close>); \<open>indexOf(undefined)\<close> is \<open>-1\<close> on an array of strings, so both branches
  throw the same error as for an unknown method.
\<close>

definition verifyPreviousToken_then ::
  "string list \<Rightarrow> string option \<Rightarrow> payload option \<Rightarrow> error + verificationResult" where
  "verifyPreviousToken_then steps method0 payload =
     (case payload of
        Some p \<Rightarrow>
          if claim_final p then Inl (Error final_token_msg)
          else
            let previousMethodIndex = indexOf steps (claim_from p) in
            if previousMethodIndex < 0 then Inl (Error invalid_previous_step_msg)
            else
              (case (if falsy method0 then at steps (previousMethodIndex + 1) else method0) of
                 None \<Rightarrow> Inl (Error invalid_method_msg)
               | Some method \<Rightarrow>
                   let currentMethodIndex = indexOf steps method in
                   if currentMethodIndex < 0 \<or> currentMethodIndex \<noteq> previousMethodIndex + 1
                   then Inl (Error invalid_method_msg)
                   else Inr \<lparr>vr_payload = payload, vr_method = method\<rparr>)
      | None \<Rightarrow>
          (case (if falsy method0 then at steps 0 else method0) of
             None \<Rightarrow> Inl (Error invalid_method_msg)
           | Some method \<Rightarrow>
               let currentMethodIndex = indexOf steps method in
               if currentMethodIndex \<noteq> 0 then Inl (Error invalid_method_msg)
               else Inr \<lparr>vr_payload = payload, vr_method = method\<rparr>))"

text \<open>
  \<open>_verifyPreviousToken\<close>: a truthy previous token is verified with the manager's key,
  algorithm \<open>HS256\<close> and the subject; otherwise the promise resolves to \<open>null\<close>.
\<close>

definition verifyPreviousToken ::
  "JWT \<Rightarrow> 's TokenManager \<Rightarrow> string option \<Rightarrow> string \<Rightarrow> string option \<Rightarrow> 's world
     \<Rightarrow> (error + verificationResult) \<times> 's world" where
  "verifyPreviousToken jwt self previousToken subjectID method w =
     (case (if falsy previousToken then None else previousToken) of
        Some tok \<Rightarrow>
          (let w1 = w\<lparr>trace := trace w @ [Verify tok]\<rparr> in
           case JWT_verify jwt tok (tokenParameters_key self)
                  \<lparr>verify_algorithms = [''HS256''], verify_subject = subjectID\<rparr> of
             Inl e \<Rightarrow> (Inl e, w1)
           | Inr p \<Rightarrow> (verifyPreviousToken_then (authSteps self) method (Some p), w1))
      | None \<Rightarrow> (verifyPreviousToken_then (authSteps self) method None, w))"

text \<open>
  \<open>_getTokenForSecret\<close>: look the back-end up, authenticate, and only then sign
  \<open>{ from: method, final }\<close> for the subject, expiring in eight hours.
\<close>

definition getTokenForSecret ::
  "JWT \<Rightarrow> 's TokenManager \<Rightarrow> string \<Rightarrow> string \<Rightarrow> string \<Rightarrow> bool \<Rightarrow> 's world
     \<Rightarrow> (error + string) \<times> 's world" where
  "getTokenForSecret jwt self subjectID secret method final w =
     (case authBackends self method of
        None \<Rightarrow> (Inl TypeError, w)
      | Some backend \<Rightarrow>
          (let w1 = w\<lparr>trace := trace w @ [Authenticate method subjectID secret]\<rparr> in
           case backend_authenticate backend subjectID secret (backend_state w1) of
             (Inl e, s) \<Rightarrow> (Inl e, w1\<lparr>backend_state := s\<rparr>)
           | (Inr u, s) \<Rightarrow>
               (let claims = \<lparr>claim_from = method, claim_final = final\<rparr> in
                (JWT_sign jwt claims (tokenParameters_key self)
                   \<lparr>sign_algorithm = ''HS256'', sign_expiresIn = ''8h'', sign_subject = subjectID\<rparr>,
                 w1\<lparr>backend_state := s, trace := trace w1 @ [Sign claims]\<rparr>))))"

definition getToken ::
  "JWT \<Rightarrow> 's TokenManager \<Rightarrow> string option \<Rightarrow> string \<Rightarrow> string \<Rightarrow> string option \<Rightarrow> 's world
     \<Rightarrow> (error + AuthResult) \<times> 's world" where
  "getToken jwt self previousToken subjectID secret method w =
     (case verifyPreviousToken jwt self previousToken subjectID method w of
        (Inl e, w1) \<Rightarrow> (Inl e, w1)
      | (Inr verificationResult, w1) \<Rightarrow>
          (let currentMethodIndex = indexOf (authSteps self) (vr_method verificationResult);
               currentMethodIsFinal = (currentMethodIndex = int (length (authSteps self)) - 1)
           in case getTokenForSecret jwt self subjectID secret (vr_method verificationResult)
                     currentMethodIsFinal w1 of
                (Inl e, w2) \<Rightarrow> (Inl e, w2)
              | (Inr token, w2) \<Rightarrow>
                  (AuthResult_new (JStr token) (JBool currentMethodIsFinal)
                     (if currentMethodIsFinal then JNull
                      else JArr [case at (authSteps self) (currentMethodIndex + 1) of
                                   None \<Rightarrow> JUndefined | Some m \<Rightarrow> JStr m]),
                   w2)))"

text \<open>
  \<open>requestChallenge\<close>: after the same resolution, call \<open>requestChallenge\<close> on the chosen
  back-end. A missing back-end or a missing \<open>requestChallenge\<close> property makes the call
  expression throw a \<open>TypeError\<close> inside the promise callback.
\<close>

definition requestChallenge ::
  "JWT \<Rightarrow> 's TokenManager \<Rightarrow> string \<Rightarrow> string option \<Rightarrow> string option \<Rightarrow> 's world
     \<Rightarrow> (error + AuthChallenge) \<times> 's world" where
  "requestChallenge jwt self subjectID previousToken method w =
     (case verifyPreviousToken jwt self previousToken subjectID method w of
        (Inl e, w1) \<Rightarrow> (Inl e, w1)
      | (Inr verificationResult, w1) \<Rightarrow>
          (let chosenMethod = vr_method verificationResult in
           case authBackends self chosenMethod of
             None \<Rightarrow> (Inl TypeError, w1)
           | Some backend \<Rightarrow>
               (case backend_requestChallenge backend of
                  None \<Rightarrow> (Inl TypeError, w1)
                | Some challenge \<Rightarrow>
                    (let w2 = w1\<lparr>trace := trace w1 @ [RequestChallenge chosenMethod subjectID]\<rparr> in
                     case challenge subjectID (backend_state w2) of
                       (r, s) \<Rightarrow> (r, w2\<lparr>backend_state := s\<rparr>)))))"

text \<open>
  The events that resolution adds to the trace: one verification, for a truthy token.
\<close>

definition resolution_events :: "string option \<Rightarrow> event list" where
  "resolution_events previousToken =
     (case previousToken of None \<Rightarrow> [] | Some tok \<Rightarrow> if tok = [] then [] else [Verify tok])"

section \<open>A client and test fixtures\<close>

text \<open>
  The client of the two-factor test: a sequence of \<open>getToken\<close> calls for one subject, the
  first without a previous token, each later one passing the token of the result before
  it. It stops at the first rejection.
\<close>

fun getTokenChain ::
  "JWT \<Rightarrow> 's TokenManager \<Rightarrow> string \<Rightarrow> (string \<times> string option) list \<Rightarrow> string option
     \<Rightarrow> 's world \<Rightarrow> (error + AuthResult list) \<times> 's world" where
  "getTokenChain jwt self subjectID [] previousToken w = (Inr [], w)"
| "getTokenChain jwt self subjectID ((secret, method) # calls) previousToken w =
     (case getToken jwt self previousToken subjectID secret method w of
        (Inl e, w1) \<Rightarrow> (Inl e, w1)
      | (Inr r, w1) \<Rightarrow>
          (case getTokenChain jwt self subjectID calls (Some (result_token r)) w1 of
             (Inl e, w2) \<Rightarrow> (Inl e, w2)
           | (Inr rs, w2) \<Rightarrow> (Inr (r # rs), w2)))"

text \<open>
  A stand-in for the signing library, for running the model on concrete inputs: the token
  spells out key, subject and claims, and verification reads them back.
\<close>

definition testJWT :: JWT where
  "testJWT =
     \<lparr>JWT_sign = (\<lambda>p key opts.
        Inr (key @ ''.'' @ sign_subject opts @ ''.'' @ (if claim_final p then ''1'' else ''0'') @ claim_from p)),
      JWT_verify = (\<lambda>tok key opts.
        let header = key @ ''.'' @ verify_subject opts @ ''.'' in
        if take (length header) tok = header \<and> length header < length tok
        then Inr \<lparr>claim_from = drop (Suc (length header)) tok,
                  claim_final = (tok ! length header = CHR ''1'')\<rparr>
        else Inl (JsonWebTokenError ''invalid signature''))\<rparr>"

text \<open>
  The password back-end of the tests (it has no \<open>requestChallenge\<close>), the two-step
  manager of the tests with that back-end behind both steps, and an initial world.
\<close>

definition passwords :: "string \<rightharpoonup> string" where
  "passwords = [''user1'' \<mapsto> ''password1'']"

definition passwordBackend :: "'s backend" where
  "passwordBackend =
     \<lparr>backend_authenticate = (\<lambda>subjectID secret s.
        case passwords subjectID of
          None \<Rightarrow> (Inl (Error ''Invalid password or no such user''), s)
        | Some pw \<Rightarrow>
            if pw \<noteq> [] \<and> secret \<noteq> [] \<and> pw = secret then (Inr (), s)
            else (Inl (Error ''Invalid password or no such user''), s)),
      backend_requestChallenge = None\<rparr>"

definition twoFactor :: "unit TokenManager" where
  "twoFactor =
     \<lparr>authBackends = [''password'' \<mapsto> passwordBackend, ''date'' \<mapsto> passwordBackend],
      authSteps = [''password'', ''date''],
      tokenParameters_key = ''chess-verify=barrel''\<rparr>"

definition w0 :: "unit world" where
  "w0 = \<lparr>backend_state = (), trace = []\<rparr>"

section \<open>Properties of the helpers\<close>

lemma indexOf_lower: "- 1 \<le> indexOf xs x"
  by (induction xs) (auto simp: Let_def)

lemma indexOf_upper: "indexOf xs x < int (length xs)"
  by (induction xs) (auto simp: Let_def)

lemma indexOf_nth: "0 \<le> indexOf xs x \<Longrightarrow> xs ! nat (indexOf xs x) = x"
proof (induction xs)
  case Nil
  then show ?case by simp
next
  case (Cons y ys)
  show ?case
  proof (cases "y = x")
    case True
    then show ?thesis by simp
  next
    case False
    with Cons.prems have nonneg: "0 \<le> indexOf ys x"
      by (simp add: Let_def split: if_splits)
    with False Cons.IH show ?thesis
      by (simp add: Let_def nat_add_distrib)
  qed
qed

lemma indexOf_zero_iff: "indexOf xs x = 0 \<longleftrightarrow> (\<exists>ys. xs = x # ys)"
  using indexOf_lower [of "tl xs" x] by (cases xs) (auto simp: Let_def)

lemma indexOf_distinct_nth:
  "distinct xs \<Longrightarrow> i < length xs \<Longrightarrow> indexOf xs (xs ! i) = int i"
proof (induction xs arbitrary: i)
  case Nil
  then show ?case by simp
next
  case (Cons y ys)
  show ?case
  proof (cases i)
    case 0
    then show ?thesis by simp
  next
    case (Suc j)
    with Cons.prems have "j < length ys" "distinct ys" "ys ! j \<noteq> y"
      by auto
    with Cons.IH [of j] Suc show ?thesis
      by (simp add: Let_def)
  qed
qed

lemma indexOf_distinct_last:
  assumes "distinct xs" and "xs \<noteq> []"
  shows "indexOf xs (last xs) = int (length xs) - 1"
proof -
  from assms(2) have len: "int (length xs - 1) = int (length xs) - 1"
    by (cases xs) simp_all
  from assms have "indexOf xs (xs ! (length xs - 1)) = int (length xs - 1)"
    by (intro indexOf_distinct_nth) simp_all
  moreover from assms(2) have "last xs = xs ! (length xs - 1)"
    by (rule last_conv_nth)
  ultimately show ?thesis
    using len by simp
qed

section \<open>Resolution and its callers\<close>

lemma verifyPreviousToken_truthy:
  assumes "tok \<noteq> []"
    and "JWT_verify jwt tok (tokenParameters_key self)
           \<lparr>verify_algorithms = [''HS256''], verify_subject = subjectID\<rparr> = Inr p"
  shows "verifyPreviousToken jwt self (Some tok) subjectID method w =
           (verifyPreviousToken_then (authSteps self) method (Some p),
            w\<lparr>trace := trace w @ [Verify tok]\<rparr>)"
  using assms by (simp add: verifyPreviousToken_def falsy_def Let_def)

lemma verifyPreviousToken_falsy:
  assumes "falsy previousToken"
  shows "verifyPreviousToken jwt self previousToken subjectID method w =
           (verifyPreviousToken_then (authSteps self) method None, w)"
  using assms by (simp add: verifyPreviousToken_def)

lemma verifyPreviousToken_world:
  "snd (verifyPreviousToken jwt self previousToken subjectID method w) =
     w\<lparr>trace := trace w @ resolution_events previousToken\<rparr>"
  by (auto simp: verifyPreviousToken_def resolution_events_def falsy_def Let_def
      split: option.splits sum.splits)

lemma resolve_after_token:
  assumes "\<not> claim_final p" and "0 \<le> indexOf steps (claim_from p)"
  shows "verifyPreviousToken_then steps methodArg (Some p) =
           (case (if falsy methodArg then at steps (indexOf steps (claim_from p) + 1) else methodArg) of
              None \<Rightarrow> Inl (Error invalid_method_msg)
            | Some m \<Rightarrow>
                if indexOf steps m = indexOf steps (claim_from p) + 1
                then Inr \<lparr>vr_payload = Some p, vr_method = m\<rparr>
                else Inl (Error invalid_method_msg))"
  using assms by (auto simp: verifyPreviousToken_then_def Let_def split: option.splits)

lemma resolve_without_token:
  "verifyPreviousToken_then steps methodArg None =
     (case (if falsy methodArg then at steps 0 else methodArg) of
        None \<Rightarrow> Inl (Error invalid_method_msg)
      | Some m \<Rightarrow>
          if indexOf steps m = 0 then Inr \<lparr>vr_payload = None, vr_method = m\<rparr>
          else Inl (Error invalid_method_msg))"
  by (auto simp: verifyPreviousToken_then_def Let_def split: option.splits)

lemma resolution_success_index:
  assumes "verifyPreviousToken_then steps methodArg payload = Inr vr"
  shows "0 \<le> indexOf steps (vr_method vr)
       \<and> (case payload of
             None \<Rightarrow> indexOf steps (vr_method vr) = 0
           | Some p \<Rightarrow> \<not> claim_final p \<and> 0 \<le> indexOf steps (claim_from p)
                \<and> indexOf steps (vr_method vr) = indexOf steps (claim_from p) + 1)"
  using assms
  by (auto simp: verifyPreviousToken_then_def Let_def split: option.splits if_splits)

lemma verifyPreviousToken_success_index:
  assumes "fst (verifyPreviousToken jwt self previousToken subjectID methodArg w) = Inr vr"
  shows "0 \<le> indexOf (authSteps self) (vr_method vr)"
  using assms resolution_success_index [of "authSteps self" "methodArg" _ vr]
  by (auto simp: verifyPreviousToken_def Let_def split: option.splits sum.splits if_splits)

lemma getToken_resolution_fails:
  assumes "verifyPreviousToken jwt self previousToken subjectID method w = (Inl e, w1)"
  shows "getToken jwt self previousToken subjectID secret method w = (Inl e, w1)"
  using assms by (simp add: getToken_def)

lemma requestChallenge_resolution_fails:
  assumes "verifyPreviousToken jwt self previousToken subjectID method w = (Inl e, w1)"
  shows "requestChallenge jwt self subjectID previousToken method w = (Inl e, w1)"
  using assms by (simp add: requestChallenge_def)

lemma getToken_trace_extends:
  "\<exists>evs. trace (snd (getToken jwt self previousToken subjectID secret methodArg w)) =
     trace (snd (verifyPreviousToken jwt self previousToken subjectID methodArg w)) @ evs"
  by (auto simp: getToken_def getTokenForSecret_def Let_def split: prod.splits sum.splits option.splits)

lemma requestChallenge_trace_extends:
  "\<exists>evs. trace (snd (requestChallenge jwt self subjectID previousToken methodArg w)) =
     trace (snd (verifyPreviousToken jwt self previousToken subjectID methodArg w)) @ evs"
  by (auto simp: requestChallenge_def Let_def split: prod.splits sum.splits option.splits)

lemma getToken_success:
  assumes "getToken jwt self previousToken subjectID secret methodArg w = (Inr r, w2)"
  shows "\<exists>vr. fst (verifyPreviousToken jwt self previousToken subjectID methodArg w) = Inr vr
       \<and> JWT_sign jwt
            \<lparr>claim_from = vr_method vr,
             claim_final = (indexOf (authSteps self) (vr_method vr) = int (length (authSteps self)) - 1)\<rparr>
            (tokenParameters_key self)
            \<lparr>sign_algorithm = ''HS256'', sign_expiresIn = ''8h'', sign_subject = subjectID\<rparr>
           = Inr (result_token r)
       \<and> result_token r \<noteq> []
       \<and> result_final r = (indexOf (authSteps self) (vr_method vr) = int (length (authSteps self)) - 1)
       \<and> result_next r =
           (if result_final r then JNull
            else JArr [case at (authSteps self) (indexOf (authSteps self) (vr_method vr) + 1) of
                         None \<Rightarrow> JUndefined | Some m \<Rightarrow> JStr m])"
  using assms
  by (auto simp: getToken_def getTokenForSecret_def AuthResult_new_def default_param_def Let_def
      split: prod.splits sum.splits option.splits if_splits)

section \<open>The fixtures at work\<close>

lemma testJWT_roundtrip:
  "JWT_sign testJWT p key \<lparr>sign_algorithm = a, sign_expiresIn = x, sign_subject = u\<rparr> = Inr t
   \<Longrightarrow> JWT_verify testJWT t key \<lparr>verify_algorithms = as, verify_subject = u\<rparr> = Inr p"
  by (cases p) (auto simp: testJWT_def Let_def nth_append drop_Cons' split: if_splits)

lemma testJWT_decodes_minted:
  "\<forall>c t. JWT_sign testJWT c (tokenParameters_key twoFactor)
            \<lparr>sign_algorithm = ''HS256'', sign_expiresIn = ''8h'', sign_subject = ''user1''\<rparr> = Inr t
     \<longrightarrow> JWT_verify testJWT t (tokenParameters_key twoFactor)
            \<lparr>verify_algorithms = [''HS256''], verify_subject = ''user1''\<rparr> = Inr c"
  using testJWT_roundtrip by blast

lemma twoFactor_first_call:
  "getToken testJWT twoFactor None ''user1'' ''password1'' None w0
     = (Inr \<lparr>result_token = ''chess-verify=barrel.user1.0password'', result_final = False,
             result_next = JArr [JStr ''date'']\<rparr>,
        \<lparr>backend_state = (),
         trace = [Authenticate ''password'' ''user1'' ''password1'',
                  Sign \<lparr>claim_from = ''password'', claim_final = False\<rparr>]\<rparr>)"
  by (simp add: getToken_def verifyPreviousToken_falsy resolve_without_token falsy_def at_def
        getTokenForSecret_def AuthResult_new_def default_param_def Let_def
        testJWT_def twoFactor_def passwordBackend_def passwords_def w0_def)

lemma twoFactor_second_call:
  "getToken testJWT twoFactor (Some ''chess-verify=barrel.user1.0password'') ''user1'' ''password1'' None
       \<lparr>backend_state = (),
        trace = [Authenticate ''password'' ''user1'' ''password1'',
                 Sign \<lparr>claim_from = ''password'', claim_final = False\<rparr>]\<rparr>
     = (Inr \<lparr>result_token = ''chess-verify=barrel.user1.1date'', result_final = True,
             result_next = JNull\<rparr>,
        \<lparr>backend_state = (),
         trace = [Authenticate ''password'' ''user1'' ''password1'',
                  Sign \<lparr>claim_from = ''password'', claim_final = False\<rparr>,
                  Verify ''chess-verify=barrel.user1.0password'',
                  Authenticate ''date'' ''user1'' ''password1'',
                  Sign \<lparr>claim_from = ''date'', claim_final = True\<rparr>]\<rparr>)"
  by (simp add: getToken_def verifyPreviousToken_def verifyPreviousToken_then_def falsy_def at_def
        getTokenForSecret_def AuthResult_new_def default_param_def Let_def
        testJWT_def twoFactor_def passwordBackend_def passwords_def)

lemma twoFactor_chain:
  "getTokenChain testJWT twoFactor ''user1'' [(''password1'', None), (''password1'', None)] None w0
     = (Inr [\<lparr>result_token = ''chess-verify=barrel.user1.0password'', result_final = False,
               result_next = JArr [JStr ''date'']\<rparr>,
             \<lparr>result_token = ''chess-verify=barrel.user1.1date'', result_final = True,
               result_next = JNull\<rparr>],
        \<lparr>backend_state = (),
         trace = [Authenticate ''password'' ''user1'' ''password1'',
                  Sign \<lparr>claim_from = ''password'', claim_final = False\<rparr>,
                  Verify ''chess-verify=barrel.user1.0password'',
                  Authenticate ''date'' ''user1'' ''password1'',
                  Sign \<lparr>claim_from = ''date'', claim_final = True\<rparr>]\<rparr>)"
  by (simp add: twoFactor_first_call twoFactor_second_call)

section \<open>Sequencing of the steps\<close>

text \<open>
  Claim C1. Let a previous token verify to non-final claims whose \<open>from\<close> has index \<open>i\<close>
  in the step sequence. An explicit method whose index is not \<open>i + 1\<close> makes \<open>getToken\<close>
  and \<open>requestChallenge\<close> fail with the invalid-method error: this covers a later step,
  an earlier one, the same one and a name outside the sequence. A method is explicit when
  the code's test \<open>!method\<close> is false, that is for a non-empty name; \<open>null\<close> and the empty
  string are the unspecified method. With the method unspecified, resolution takes the
  entry at index \<open>i + 1\<close>: it returns that entry when there is one and \<open>indexOf\<close> finds
  it at \<open>i + 1\<close>, and fails otherwise.
\<close>

theorem next_step_enforced:
  assumes "tok \<noteq> []"
    and "JWT_verify jwt tok (tokenParameters_key self)
           \<lparr>verify_algorithms = [''HS256''], verify_subject = subjectID\<rparr> = Inr p"
    and "\<not> claim_final p"
    and "indexOf (authSteps self) (claim_from p) = i" and "0 \<le> i"
  shows "(m \<noteq> [] \<and> indexOf (authSteps self) m \<noteq> i + 1 \<longrightarrow>
            fst (getToken jwt self (Some tok) subjectID secret (Some m) w)
              = Inl (Error invalid_method_msg)
          \<and> fst (requestChallenge jwt self subjectID (Some tok) (Some m) w)
              = Inl (Error invalid_method_msg))
       \<and> (falsy methodArg \<longrightarrow>
            fst (verifyPreviousToken jwt self (Some tok) subjectID methodArg w) =
              (case at (authSteps self) (i + 1) of
                 None \<Rightarrow> Inl (Error invalid_method_msg)
               | Some successor \<Rightarrow>
                   if indexOf (authSteps self) successor = i + 1
                   then Inr \<lparr>vr_payload = Some p, vr_method = successor\<rparr>
                   else Inl (Error invalid_method_msg)))"
proof (intro conjI impI)
  assume explicit: "m \<noteq> [] \<and> indexOf (authSteps self) m \<noteq> i + 1"
  then have "verifyPreviousToken_then (authSteps self) (Some m) (Some p) = Inl (Error invalid_method_msg)"
    using assms(3-5) by (simp add: resolve_after_token falsy_def)
  with verifyPreviousToken_truthy [OF assms(1,2), of "Some m" "w"]
  have res: "verifyPreviousToken jwt self (Some tok) subjectID (Some m) w =
               (Inl (Error invalid_method_msg), w\<lparr>trace := trace w @ [Verify tok]\<rparr>)"
    by simp
  from getToken_resolution_fails [OF res]
  show "fst (getToken jwt self (Some tok) subjectID secret (Some m) w) = Inl (Error invalid_method_msg)"
    by simp
  from requestChallenge_resolution_fails [OF res]
  show "fst (requestChallenge jwt self subjectID (Some tok) (Some m) w) = Inl (Error invalid_method_msg)"
    by simp
next
  assume "falsy methodArg"
  then have "verifyPreviousToken_then (authSteps self) methodArg (Some p) =
      (case at (authSteps self) (i + 1) of
         None \<Rightarrow> Inl (Error invalid_method_msg)
       | Some successor \<Rightarrow>
           if indexOf (authSteps self) successor = i + 1
           then Inr \<lparr>vr_payload = Some p, vr_method = successor\<rparr>
           else Inl (Error invalid_method_msg))"
    using assms(3-5) by (auto simp: resolve_after_token split: option.splits)
  with verifyPreviousToken_truthy [OF assms(1,2), of "methodArg" "w"]
  show "fst (verifyPreviousToken jwt self (Some tok) subjectID methodArg w) =
      (case at (authSteps self) (i + 1) of
         None \<Rightarrow> Inl (Error invalid_method_msg)
       | Some successor \<Rightarrow>
           if indexOf (authSteps self) successor = i + 1
           then Inr \<lparr>vr_payload = Some p, vr_method = successor\<rparr>
           else Inl (Error invalid_method_msg))"
    by simp
qed

theorem next_step_enforced_witness:
  "JWT_verify testJWT ''chess-verify=barrel.user1.0password'' (tokenParameters_key twoFactor)
     \<lparr>verify_algorithms = [''HS256''], verify_subject = ''user1''\<rparr>
     = Inr \<lparr>claim_from = ''password'', claim_final = False\<rparr>
   \<and> indexOf (authSteps twoFactor) ''password'' = 0
   \<and> fst (getToken testJWT twoFactor (Some ''chess-verify=barrel.user1.0password'') ''user1''
            ''password1'' (Some ''password'') w0) = Inl (Error invalid_method_msg)
   \<and> fst (requestChallenge testJWT twoFactor ''user1'' (Some ''chess-verify=barrel.user1.0password'')
            (Some ''password'') w0) = Inl (Error invalid_method_msg)
   \<and> fst (verifyPreviousToken testJWT twoFactor (Some ''chess-verify=barrel.user1.0password'')
            ''user1'' None w0)
       = Inr \<lparr>vr_payload = Some \<lparr>claim_from = ''password'', claim_final = False\<rparr>,
               vr_method = ''date''\<rparr>"
proof -
  have nonempty: "''chess-verify=barrel.user1.0password'' \<noteq> []"
    by simp
  have verified: "JWT_verify testJWT ''chess-verify=barrel.user1.0password'' (tokenParameters_key twoFactor)
      \<lparr>verify_algorithms = [''HS256''], verify_subject = ''user1''\<rparr>
      = Inr \<lparr>claim_from = ''password'', claim_final = False\<rparr>"
    by (simp add: testJWT_def twoFactor_def)
  have intermediate: "\<not> claim_final \<lparr>claim_from = ''password'', claim_final = False\<rparr>"
    by simp
  have position: "indexOf (authSteps twoFactor) (claim_from \<lparr>claim_from = ''password'', claim_final = False\<rparr>) = 0"
    by (simp add: twoFactor_def)
  have steps: "authSteps twoFactor = [''password'', ''date'']"
    by (simp add: twoFactor_def)
  from verified position
    next_step_enforced [OF nonempty verified intermediate position order.refl,
      of "''password''" "''password1''" "w0" "None"]
  show ?thesis
    by (simp add: steps falsy_def at_def)
qed

text \<open>
  Claim C2. A previous token that verifies and carries \<open>final = true\<close> makes resolution
  fail with the final-token error, whatever method is requested, and so \<open>getToken\<close> and
  \<open>requestChallenge\<close> fail with it.
\<close>

theorem final_token_grants_no_step:
  assumes "tok \<noteq> []"
    and "JWT_verify jwt tok (tokenParameters_key self)
           \<lparr>verify_algorithms = [''HS256''], verify_subject = subjectID\<rparr> = Inr p"
    and "claim_final p"
  shows "fst (verifyPreviousToken jwt self (Some tok) subjectID method w) = Inl (Error final_token_msg)
       \<and> fst (getToken jwt self (Some tok) subjectID secret method w) = Inl (Error final_token_msg)
       \<and> fst (requestChallenge jwt self subjectID (Some tok) method w) = Inl (Error final_token_msg)"
proof -
  have "verifyPreviousToken_then (authSteps self) method (Some p) = Inl (Error final_token_msg)"
    using assms(3) by (simp add: verifyPreviousToken_then_def)
  with verifyPreviousToken_truthy [OF assms(1,2), of "method" "w"]
  have res: "verifyPreviousToken jwt self (Some tok) subjectID method w =
               (Inl (Error final_token_msg), w\<lparr>trace := trace w @ [Verify tok]\<rparr>)"
    by simp
  from res getToken_resolution_fails [OF res] requestChallenge_resolution_fails [OF res]
  show ?thesis by simp
qed

theorem final_token_grants_no_step_witness:
  "JWT_verify testJWT ''chess-verify=barrel.user1.1date'' (tokenParameters_key twoFactor)
     \<lparr>verify_algorithms = [''HS256''], verify_subject = ''user1''\<rparr>
     = Inr \<lparr>claim_from = ''date'', claim_final = True\<rparr>
   \<and> fst (getToken testJWT twoFactor (Some ''chess-verify=barrel.user1.1date'') ''user1''
            ''password1'' (Some ''date'') w0) = Inl (Error final_token_msg)
   \<and> fst (requestChallenge testJWT twoFactor ''user1'' (Some ''chess-verify=barrel.user1.1date'')
            None w0) = Inl (Error final_token_msg)"
proof -
  have nonempty: "''chess-verify=barrel.user1.1date'' \<noteq> []"
    by simp
  have verified: "JWT_verify testJWT ''chess-verify=barrel.user1.1date'' (tokenParameters_key twoFactor)
      \<lparr>verify_algorithms = [''HS256''], verify_subject = ''user1''\<rparr>
      = Inr \<lparr>claim_from = ''date'', claim_final = True\<rparr>"
    by (simp add: testJWT_def twoFactor_def)
  have final: "claim_final \<lparr>claim_from = ''date'', claim_final = True\<rparr>"
    by simp
  from verified
    final_token_grants_no_step [OF nonempty verified final, of "Some ''date''" "w0" "''password1''"]
    final_token_grants_no_step [OF nonempty verified final, of "None" "w0" "''password1''"]
  show ?thesis by simp
qed

text \<open>
  Claim C5. Without a previous token, an unspecified method resolves to the first entry
  of the step sequence (and fails on an empty sequence), and \<open>getToken\<close> with an explicit
  method other than the first entry fails with the invalid-method error, leaving the
  world as it was.
\<close>

theorem first_step_enforced:
  assumes "falsy previousToken"
  shows "(falsy methodArg \<longrightarrow>
            fst (verifyPreviousToken jwt self previousToken subjectID methodArg w) =
              (case authSteps self of
                 [] \<Rightarrow> Inl (Error invalid_method_msg)
               | first # rest \<Rightarrow> Inr \<lparr>vr_payload = None, vr_method = first\<rparr>))
       \<and> (m \<noteq> [] \<and> at (authSteps self) 0 \<noteq> Some m \<longrightarrow>
            getToken jwt self previousToken subjectID secret (Some m) w
              = (Inl (Error invalid_method_msg), w))"
proof (intro conjI impI)
  assume "falsy methodArg"
  then have "verifyPreviousToken_then (authSteps self) methodArg None =
      (case authSteps self of
         [] \<Rightarrow> Inl (Error invalid_method_msg)
       | first # rest \<Rightarrow> Inr \<lparr>vr_payload = None, vr_method = first\<rparr>)"
    by (simp add: resolve_without_token at_def split: list.splits)
  with verifyPreviousToken_falsy [OF assms, of jwt self subjectID "methodArg" "w"]
  show "fst (verifyPreviousToken jwt self previousToken subjectID methodArg w) =
      (case authSteps self of
         [] \<Rightarrow> Inl (Error invalid_method_msg)
       | first # rest \<Rightarrow> Inr \<lparr>vr_payload = None, vr_method = first\<rparr>)"
    by simp
next
  assume explicit: "m \<noteq> [] \<and> at (authSteps self) 0 \<noteq> Some m"
  then have "indexOf (authSteps self) m \<noteq> 0"
    by (auto simp: indexOf_zero_iff at_def)
  with explicit have "verifyPreviousToken_then (authSteps self) (Some m) None = Inl (Error invalid_method_msg)"
    by (simp add: resolve_without_token falsy_def)
  with verifyPreviousToken_falsy [OF assms, of jwt self subjectID "Some m" "w"]
  have "verifyPreviousToken jwt self previousToken subjectID (Some m) w = (Inl (Error invalid_method_msg), w)"
    by simp
  then show "getToken jwt self previousToken subjectID secret (Some m) w = (Inl (Error invalid_method_msg), w)"
    by (rule getToken_resolution_fails)
qed

theorem first_step_enforced_witness:
  "falsy None
   \<and> fst (verifyPreviousToken testJWT twoFactor None ''user1'' None w0)
       = Inr \<lparr>vr_payload = None, vr_method = ''password''\<rparr>
   \<and> getToken testJWT twoFactor None ''user1'' ''password1'' (Some ''date'') w0
       = (Inl (Error invalid_method_msg), w0)"
proof -
  have absent: "falsy None"
    by (simp add: falsy_def)
  have steps: "authSteps twoFactor = [''password'', ''date'']"
    by (simp add: twoFactor_def)
  from absent
    first_step_enforced [OF absent, of "None" testJWT twoFactor "''user1''" "w0" "''date''" "''password1''"]
  show ?thesis
    by (simp add: steps at_def)
qed

text \<open>
  Claim C9. For a sequence of unique names, a previous token that verifies to non-final
  claims whose \<open>from\<close> is the last entry has no successor to default to: with the method
  unspecified, resolution fails, and so do \<open>getToken\<close> and \<open>requestChallenge\<close>.
\<close>

theorem last_step_token_has_no_default:
  assumes "tok \<noteq> []"
    and "JWT_verify jwt tok (tokenParameters_key self)
           \<lparr>verify_algorithms = [''HS256''], verify_subject = subjectID\<rparr> = Inr p"
    and "\<not> claim_final p"
    and "distinct (authSteps self)" and "authSteps self \<noteq> []"
    and "claim_from p = last (authSteps self)"
    and "falsy methodArg"
  shows "fst (verifyPreviousToken jwt self (Some tok) subjectID methodArg w) = Inl (Error invalid_method_msg)
       \<and> fst (getToken jwt self (Some tok) subjectID secret methodArg w) = Inl (Error invalid_method_msg)
       \<and> fst (requestChallenge jwt self subjectID (Some tok) methodArg w) = Inl (Error invalid_method_msg)"
proof -
  have idx: "indexOf (authSteps self) (claim_from p) = int (length (authSteps self)) - 1"
    using assms(4-6) by (simp add: indexOf_distinct_last)
  moreover from assms(5) have "0 \<le> int (length (authSteps self)) - 1"
    by (cases "authSteps self") simp_all
  ultimately have "verifyPreviousToken_then (authSteps self) methodArg (Some p) = Inl (Error invalid_method_msg)"
    using assms(3,7) by (simp add: resolve_after_token at_def)
  with verifyPreviousToken_truthy [OF assms(1,2), of "methodArg" "w"]
  have res: "verifyPreviousToken jwt self (Some tok) subjectID methodArg w =
               (Inl (Error invalid_method_msg), w\<lparr>trace := trace w @ [Verify tok]\<rparr>)"
    by simp
  from res getToken_resolution_fails [OF res] requestChallenge_resolution_fails [OF res]
  show ?thesis by simp
qed

theorem last_step_token_has_no_default_witness:
  "JWT_verify testJWT ''chess-verify=barrel.user1.0date'' (tokenParameters_key twoFactor)
     \<lparr>verify_algorithms = [''HS256''], verify_subject = ''user1''\<rparr>
     = Inr \<lparr>claim_from = ''date'', claim_final = False\<rparr>
   \<and> distinct (authSteps twoFactor) \<and> ''date'' = last (authSteps twoFactor)
   \<and> fst (getToken testJWT twoFactor (Some ''chess-verify=barrel.user1.0date'') ''user1''
            ''password1'' None w0) = Inl (Error invalid_method_msg)
   \<and> fst (requestChallenge testJWT twoFactor ''user1'' (Some ''chess-verify=barrel.user1.0date'')
            None w0) = Inl (Error invalid_method_msg)"
proof -
  have nonempty: "''chess-verify=barrel.user1.0date'' \<noteq> []"
    by simp
  have verified: "JWT_verify testJWT ''chess-verify=barrel.user1.0date'' (tokenParameters_key twoFactor)
      \<lparr>verify_algorithms = [''HS256''], verify_subject = ''user1''\<rparr>
      = Inr \<lparr>claim_from = ''date'', claim_final = False\<rparr>"
    by (simp add: testJWT_def twoFactor_def)
  have intermediate: "\<not> claim_final \<lparr>claim_from = ''date'', claim_final = False\<rparr>"
    by simp
  have unique: "distinct (authSteps twoFactor)" and some: "authSteps twoFactor \<noteq> []"
    and final_step: "claim_from \<lparr>claim_from = ''date'', claim_final = False\<rparr> = last (authSteps twoFactor)"
    by (simp_all add: twoFactor_def)
  have absent: "falsy None"
    by (simp add: falsy_def)
  from verified unique final_step
    last_step_token_has_no_default [OF nonempty verified intermediate unique some final_step absent,
      of "w0" "''password1''"]
  show ?thesis
    by simp
qed

section \<open>Results and tokens\<close>

lemma chain_positions:
  assumes roundtrip: "\<forall>c t. JWT_sign jwt c (tokenParameters_key self)
                    \<lparr>sign_algorithm = ''HS256'', sign_expiresIn = ''8h'', sign_subject = subjectID\<rparr> = Inr t
             \<longrightarrow> JWT_verify jwt t (tokenParameters_key self)
                    \<lparr>verify_algorithms = [''HS256''], verify_subject = subjectID\<rparr> = Inr c"
    and chain: "getTokenChain jwt self subjectID calls prev w = (Inr rs, w')"
    and start: "(k = 0 \<and> falsy prev)
        \<or> (0 < k \<and> (\<exists>tok p. prev = Some tok \<and> tok \<noteq> []
              \<and> JWT_verify jwt tok (tokenParameters_key self)
                   \<lparr>verify_algorithms = [''HS256''], verify_subject = subjectID\<rparr> = Inr p
              \<and> indexOf (authSteps self) (claim_from p) = int k - 1))"
  shows "(rs \<noteq> [] \<longrightarrow> k + length rs \<le> length (authSteps self))
       \<and> (\<forall>j < length rs. result_final (rs ! j) = (k + Suc j = length (authSteps self)))"
  using chain start
proof (induction calls arbitrary: prev w k rs)
  case Nil
  then show ?case by simp
next
  case (Cons call calls)
  obtain secret methodArg where call: "call = (secret, methodArg)"
    by (cases call)
  from Cons.prems(1) call obtain r w1 rs' where
    first: "getToken jwt self prev subjectID secret methodArg w = (Inr r, w1)"
    and later: "getTokenChain jwt self subjectID calls (Some (result_token r)) w1 = (Inr rs', w')"
    and rs: "rs = r # rs'"
    by (auto split: prod.splits sum.splits)
  from getToken_success [OF first] obtain vr where
    resolved: "fst (verifyPreviousToken jwt self prev subjectID methodArg w) = Inr vr"
    and signed: "JWT_sign jwt
        \<lparr>claim_from = vr_method vr,
         claim_final = (indexOf (authSteps self) (vr_method vr) = int (length (authSteps self)) - 1)\<rparr>
        (tokenParameters_key self)
        \<lparr>sign_algorithm = ''HS256'', sign_expiresIn = ''8h'', sign_subject = subjectID\<rparr>
       = Inr (result_token r)"
    and nonempty: "result_token r \<noteq> []"
    and final: "result_final r = (indexOf (authSteps self) (vr_method vr) = int (length (authSteps self)) - 1)"
    by blast
  have position: "indexOf (authSteps self) (vr_method vr) = int k"
    using Cons.prems(2)
  proof
    assume "k = 0 \<and> falsy prev"
    with resolved have "verifyPreviousToken_then (authSteps self) methodArg None = Inr vr"
      by (simp add: verifyPreviousToken_falsy)
    from resolution_success_index [OF this] \<open>k = 0 \<and> falsy prev\<close> show ?thesis
      by simp
  next
    assume "0 < k \<and> (\<exists>tok p. prev = Some tok \<and> tok \<noteq> []
              \<and> JWT_verify jwt tok (tokenParameters_key self)
                   \<lparr>verify_algorithms = [''HS256''], verify_subject = subjectID\<rparr> = Inr p
              \<and> indexOf (authSteps self) (claim_from p) = int k - 1)"
    then obtain tok p where k: "0 < k" and prev: "prev = Some tok" and tok: "tok \<noteq> []"
      and verified: "JWT_verify jwt tok (tokenParameters_key self)
                   \<lparr>verify_algorithms = [''HS256''], verify_subject = subjectID\<rparr> = Inr p"
      and from_index: "indexOf (authSteps self) (claim_from p) = int k - 1"
      by blast
    from resolved prev verifyPreviousToken_truthy [OF tok verified, of "methodArg" "w"]
    have "verifyPreviousToken_then (authSteps self) methodArg (Some p) = Inr vr"
      by simp
    from resolution_success_index [OF this] from_index show ?thesis
      by simp
  qed
  from signed roundtrip have decoded: "JWT_verify jwt (result_token r) (tokenParameters_key self)
      \<lparr>verify_algorithms = [''HS256''], verify_subject = subjectID\<rparr>
     = Inr \<lparr>claim_from = vr_method vr,
             claim_final = (indexOf (authSteps self) (vr_method vr) = int (length (authSteps self)) - 1)\<rparr>"
    by blast
  have "(Suc k = 0 \<and> falsy (Some (result_token r)))
      \<or> (0 < Suc k \<and> (\<exists>tok p. Some (result_token r) = Some tok \<and> tok \<noteq> []
            \<and> JWT_verify jwt tok (tokenParameters_key self)
                 \<lparr>verify_algorithms = [''HS256''], verify_subject = subjectID\<rparr> = Inr p
            \<and> indexOf (authSteps self) (claim_from p) = int (Suc k) - 1))"
    using nonempty decoded position by auto
  from Cons.IH [OF later this]
  have tail_bound: "rs' \<noteq> [] \<longrightarrow> Suc k + length rs' \<le> length (authSteps self)"
    and tail_final: "\<forall>j < length rs'. result_final (rs' ! j) = (Suc k + Suc j = length (authSteps self))"
    by blast+
  from position indexOf_upper [of "authSteps self" "vr_method vr"]
  have in_range: "k < length (authSteps self)"
    by simp
  from final position in_range have head_final: "result_final r = (Suc k = length (authSteps self))"
    by auto
  have "k + length rs \<le> length (authSteps self)"
    using tail_bound in_range rs by (cases rs') auto
  moreover have "\<forall>j < length rs. result_final (rs ! j) = (k + Suc j = length (authSteps self))"
  proof (intro allI impI)
    fix j assume "j < length rs"
    with rs head_final tail_final show "result_final (rs ! j) = (k + Suc j = length (authSteps self))"
      by (cases j) auto
  qed
  ultimately show ?case
    by blast
qed

text \<open>
  Claim C3. When \<open>getToken\<close> succeeds, resolution has succeeded with a method at index
  \<open>k\<close> of the sequence; the result is final exactly when \<open>k\<close> is the last index (for
  unique names: exactly when the method is the last entry), and \<open>next\<close> is \<open>null\<close> when
  final and otherwise the one-element array holding the entry at \<open>k + 1\<close>. For a client
  that chains calls for one subject, with a signing library that decodes what it signed:
  when all calls of the chain succeed there are at most \<open>N\<close> of them, and the result of
  call number \<open>j + 1\<close> is final exactly when \<open>j + 1 = N\<close>.
\<close>

theorem finality_and_chain:
  "(getToken jwt self previousToken subjectID secret methodArg w = (Inr r, w2) \<longrightarrow>
      (\<exists>vr. fst (verifyPreviousToken jwt self previousToken subjectID methodArg w) = Inr vr
         \<and> 0 \<le> indexOf (authSteps self) (vr_method vr)
         \<and> result_final r
             = (indexOf (authSteps self) (vr_method vr) = int (length (authSteps self)) - 1)
         \<and> (distinct (authSteps self) \<longrightarrow>
               result_final r = (vr_method vr = last (authSteps self)))
         \<and> (\<not> result_final r \<longrightarrow>
               indexOf (authSteps self) (vr_method vr) + 1 < int (length (authSteps self)))
         \<and> result_next r
             = (if result_final r then JNull
                else JArr [JStr (authSteps self ! nat (indexOf (authSteps self) (vr_method vr) + 1))])))
   \<and> ((\<forall>c t. JWT_sign jwt c (tokenParameters_key self)
                 \<lparr>sign_algorithm = ''HS256'', sign_expiresIn = ''8h'', sign_subject = subjectID\<rparr> = Inr t
          \<longrightarrow> JWT_verify jwt t (tokenParameters_key self)
                 \<lparr>verify_algorithms = [''HS256''], verify_subject = subjectID\<rparr> = Inr c)
        \<and> getTokenChain jwt self subjectID calls None w = (Inr rs, w') \<longrightarrow>
        length rs \<le> length (authSteps self)
        \<and> (\<forall>j < length rs. result_final (rs ! j) = (Suc j = length (authSteps self))))"
proof (intro conjI impI)
  assume success: "getToken jwt self previousToken subjectID secret methodArg w = (Inr r, w2)"
  from getToken_success [OF success] obtain vr where
    resolved: "fst (verifyPreviousToken jwt self previousToken subjectID methodArg w) = Inr vr"
    and final: "result_final r = (indexOf (authSteps self) (vr_method vr) = int (length (authSteps self)) - 1)"
    and following: "result_next r =
           (if result_final r then JNull
            else JArr [case at (authSteps self) (indexOf (authSteps self) (vr_method vr) + 1) of
                         None \<Rightarrow> JUndefined | Some m \<Rightarrow> JStr m])"
    by blast
  let ?k = "indexOf (authSteps self) (vr_method vr)"
  from verifyPreviousToken_success_index [OF resolved] have lower: "0 \<le> ?k" .
  have upper: "?k < int (length (authSteps self))"
    by (rule indexOf_upper)
  from final upper have room: "\<not> result_final r \<longrightarrow> ?k + 1 < int (length (authSteps self))"
    by auto
  with lower following have successor: "result_next r
      = (if result_final r then JNull else JArr [JStr (authSteps self ! nat (?k + 1))])"
    by (auto simp: at_def)
  have unique: "distinct (authSteps self) \<longrightarrow> result_final r = (vr_method vr = last (authSteps self))"
  proof
    assume distinct: "distinct (authSteps self)"
    from lower upper have some: "authSteps self \<noteq> []"
      by auto
    show "result_final r = (vr_method vr = last (authSteps self))"
    proof
      assume "result_final r"
      with final have "?k = int (length (authSteps self)) - 1"
        by simp
      with indexOf_nth [OF lower] have "authSteps self ! (length (authSteps self) - 1) = vr_method vr"
        by (simp add: nat_diff_distrib')
      with some show "vr_method vr = last (authSteps self)"
        by (simp add: last_conv_nth)
    next
      assume "vr_method vr = last (authSteps self)"
      with indexOf_distinct_last [OF distinct some] final show "result_final r"
        by simp
    qed
  qed
  from resolved lower final unique room successor
  show "\<exists>vr. fst (verifyPreviousToken jwt self previousToken subjectID methodArg w) = Inr vr
         \<and> 0 \<le> indexOf (authSteps self) (vr_method vr)
         \<and> result_final r
             = (indexOf (authSteps self) (vr_method vr) = int (length (authSteps self)) - 1)
         \<and> (distinct (authSteps self) \<longrightarrow>
               result_final r = (vr_method vr = last (authSteps self)))
         \<and> (\<not> result_final r \<longrightarrow>
               indexOf (authSteps self) (vr_method vr) + 1 < int (length (authSteps self)))
         \<and> result_next r
             = (if result_final r then JNull
                else JArr [JStr (authSteps self ! nat (indexOf (authSteps self) (vr_method vr) + 1))])"
    by blast
next
  assume chained: "(\<forall>c t. JWT_sign jwt c (tokenParameters_key self)
                 \<lparr>sign_algorithm = ''HS256'', sign_expiresIn = ''8h'', sign_subject = subjectID\<rparr> = Inr t
          \<longrightarrow> JWT_verify jwt t (tokenParameters_key self)
                 \<lparr>verify_algorithms = [''HS256''], verify_subject = subjectID\<rparr> = Inr c)
        \<and> getTokenChain jwt self subjectID calls None w = (Inr rs, w')"
  have start: "(0 = (0::nat) \<and> falsy None)
        \<or> (0 < (0::nat) \<and> (\<exists>tok p. None = Some tok \<and> tok \<noteq> []
              \<and> JWT_verify jwt tok (tokenParameters_key self)
                   \<lparr>verify_algorithms = [''HS256''], verify_subject = subjectID\<rparr> = Inr p
              \<and> indexOf (authSteps self) (claim_from p) = int 0 - 1))"
    by (simp add: falsy_def)
  from chained have roundtrip: "\<forall>c t. JWT_sign jwt c (tokenParameters_key self)
                 \<lparr>sign_algorithm = ''HS256'', sign_expiresIn = ''8h'', sign_subject = subjectID\<rparr> = Inr t
          \<longrightarrow> JWT_verify jwt t (tokenParameters_key self)
                 \<lparr>verify_algorithms = [''HS256''], verify_subject = subjectID\<rparr> = Inr c"
    and run: "getTokenChain jwt self subjectID calls None w = (Inr rs, w')"
    by blast+
  from chain_positions [OF roundtrip run start]
  have bound: "rs \<noteq> [] \<longrightarrow> length rs \<le> length (authSteps self)"
    and finals: "\<forall>j < length rs. result_final (rs ! j) = (Suc j = length (authSteps self))"
    by simp_all
  from bound show "length rs \<le> length (authSteps self)"
    by (cases rs) simp_all
  from finals show "\<forall>j < length rs. result_final (rs ! j) = (Suc j = length (authSteps self))" .
qed

theorem finality_and_chain_witness:
  "getTokenChain testJWT twoFactor ''user1'' [(''password1'', None), (''password1'', None)] None w0
     = (Inr [\<lparr>result_token = ''chess-verify=barrel.user1.0password'', result_final = False,
               result_next = JArr [JStr ''date'']\<rparr>,
             \<lparr>result_token = ''chess-verify=barrel.user1.1date'', result_final = True,
               result_next = JNull\<rparr>],
        \<lparr>backend_state = (),
         trace = [Authenticate ''password'' ''user1'' ''password1'',
                  Sign \<lparr>claim_from = ''password'', claim_final = False\<rparr>,
                  Verify ''chess-verify=barrel.user1.0password'',
                  Authenticate ''date'' ''user1'' ''password1'',
                  Sign \<lparr>claim_from = ''date'', claim_final = True\<rparr>]\<rparr>)
   \<and> length (authSteps twoFactor) = 2
   \<and> result_final ([\<lparr>result_token = ''chess-verify=barrel.user1.0password'', result_final = False,
                       result_next = JArr [JStr ''date'']\<rparr>,
                     \<lparr>result_token = ''chess-verify=barrel.user1.1date'', result_final = True,
                       result_next = JNull\<rparr>] ! 0) = (Suc 0 = length (authSteps twoFactor))
   \<and> result_final ([\<lparr>result_token = ''chess-verify=barrel.user1.0password'', result_final = False,
                       result_next = JArr [JStr ''date'']\<rparr>,
                     \<lparr>result_token = ''chess-verify=barrel.user1.1date'', result_final = True,
                       result_next = JNull\<rparr>] ! 1) = (Suc 1 = length (authSteps twoFactor))"
proof -
  let ?r1 = "\<lparr>result_token = ''chess-verify=barrel.user1.0password'', result_final = False,
               result_next = JArr [JStr ''date'']\<rparr>"
  let ?r2 = "\<lparr>result_token = ''chess-verify=barrel.user1.1date'', result_final = True,
               result_next = JNull\<rparr>"
  let ?w1 = "\<lparr>backend_state = (),
         trace = [Authenticate ''password'' ''user1'' ''password1'',
                  Sign \<lparr>claim_from = ''password'', claim_final = False\<rparr>]\<rparr>"
  let ?w2 = "\<lparr>backend_state = (),
         trace = [Authenticate ''password'' ''user1'' ''password1'',
                  Sign \<lparr>claim_from = ''password'', claim_final = False\<rparr>,
                  Verify ''chess-verify=barrel.user1.0password'',
                  Authenticate ''date'' ''user1'' ''password1'',
                  Sign \<lparr>claim_from = ''date'', claim_final = True\<rparr>]\<rparr>"
  have steps: "length (authSteps twoFactor) = 2"
    by (simp add: twoFactor_def)
  from finality_and_chain [of testJWT twoFactor None "''user1''" "''password1''" None w0 ?r1 ?w1
      "[(''password1'', None), (''password1'', None)]" "[?r1, ?r2]" ?w2]
    testJWT_decodes_minted twoFactor_chain
  have finals: "\<forall>j < length [?r1, ?r2]. result_final ([?r1, ?r2] ! j) = (Suc j = length (authSteps twoFactor))"
    by blast
  from finals [rule_format, of 0]
  have first: "result_final ([?r1, ?r2] ! 0) = (Suc 0 = length (authSteps twoFactor))"
    by simp
  from finals [rule_format, of 1]
  have second: "result_final ([?r1, ?r2] ! 1) = (Suc 1 = length (authSteps twoFactor))"
    by simp
  from twoFactor_chain steps first second show ?thesis
    by blast
qed

text \<open>
  Claim C4, as stated, asks that construction fail whenever \<open>final = true\<close> comes with a
  non-null \<open>next\<close>. The constructor accepts such an input and stores \<open>next\<close> as passed.
\<close>

theorem AuthResult_new_final_with_next:
  "AuthResult_new (JStr ''t'') (JBool True) (JArr [JStr ''x'']) =
     Inr \<lparr>result_token = ''t'', result_final = True, result_next = JArr [JStr ''x'']\<rparr>
   \<and> JArr [JStr ''x''] \<noteq> JNull"
  by (simp add: AuthResult_new_def default_param_def)

text \<open>
  Claim C4, amended. Construction succeeds exactly when the token, coerced to a string, is
  non-empty and either \<open>final\<close> is truthy (or left out) or \<open>next\<close> is a non-empty array;
  the result holds the coerced token and flag and \<open>next\<close> as passed. Only the direction
  from \<open>final = false\<close> to a non-empty \<open>next\<close> is enforced.
\<close>

theorem AuthResult_new_succeeds_iff:
  "AuthResult_new token final nextMethods =
     (if String_js token \<noteq> []
         \<and> (Boolean_js (default_param (JBool True) final)
            \<or> (\<exists>x xs. default_param JNull nextMethods = JArr (x # xs)))
      then Inr \<lparr>result_token = String_js token,
                result_final = Boolean_js (default_param (JBool True) final),
                result_next = default_param JNull nextMethods\<rparr>
      else Inl (Error invalid_AuthResult))"
proof (cases "default_param JNull nextMethods")
  case (JArr ys)
  then show ?thesis
    by (cases ys) (simp_all add: AuthResult_new_def Let_def)
qed (simp_all add: AuthResult_new_def Let_def)

theorem AuthResult_new_succeeds_iff_witness:
  "AuthResult_new (JStr ''t'') (JBool False) (JArr [JStr ''date'']) =
     Inr \<lparr>result_token = ''t'', result_final = False, result_next = JArr [JStr ''date'']\<rparr>
   \<and> AuthResult_new (JStr ''t'') (JBool False) JNull = Inl (Error invalid_AuthResult)
   \<and> AuthResult_new (JStr '''') (JBool True) JNull = Inl (Error invalid_AuthResult)
   \<and> AuthResult_new (JStr ''t'') JUndefined JUndefined =
        Inr \<lparr>result_token = ''t'', result_final = True, result_next = JNull\<rparr>"
  using AuthResult_new_succeeds_iff [of "JStr ''t''" "JBool False" "JArr [JStr ''date'']"]
    AuthResult_new_succeeds_iff [of "JStr ''t''" "JBool False" "JNull"]
    AuthResult_new_succeeds_iff [of "JStr ''''" "JBool True" "JNull"]
    AuthResult_new_succeeds_iff [of "JStr ''t''" "JUndefined" "JUndefined"]
  by (simp add: default_param_def)

text \<open>
  Claim C6. Let the signing library decode, under the manager's key and the subject, what
  it signed under them. When \<open>getToken\<close> succeeds with resolved method \<open>m\<close> and finality
  \<open>f\<close>, the token of the result is what \<open>JWT.sign\<close> returned for \<open>{ from: m, final: f }\<close>
  and the subject, and verifying it under the same key and subject gives back
  \<open>from = m\<close> and \<open>final = f\<close>.
\<close>

theorem minted_token_decodes:
  assumes "\<forall>c t. JWT_sign jwt c (tokenParameters_key self)
                    \<lparr>sign_algorithm = ''HS256'', sign_expiresIn = ''8h'', sign_subject = subjectID\<rparr> = Inr t
             \<longrightarrow> JWT_verify jwt t (tokenParameters_key self)
                    \<lparr>verify_algorithms = [''HS256''], verify_subject = subjectID\<rparr> = Inr c"
    and "getToken jwt self previousToken subjectID secret methodArg w = (Inr r, w2)"
  shows "\<exists>vr. fst (verifyPreviousToken jwt self previousToken subjectID methodArg w) = Inr vr
       \<and> result_final r = (indexOf (authSteps self) (vr_method vr) = int (length (authSteps self)) - 1)
       \<and> JWT_sign jwt \<lparr>claim_from = vr_method vr, claim_final = result_final r\<rparr>
            (tokenParameters_key self)
            \<lparr>sign_algorithm = ''HS256'', sign_expiresIn = ''8h'', sign_subject = subjectID\<rparr>
           = Inr (result_token r)
       \<and> JWT_verify jwt (result_token r) (tokenParameters_key self)
            \<lparr>verify_algorithms = [''HS256''], verify_subject = subjectID\<rparr>
           = Inr \<lparr>claim_from = vr_method vr, claim_final = result_final r\<rparr>"
proof -
  from getToken_success [OF assms(2)] obtain vr where
    resolved: "fst (verifyPreviousToken jwt self previousToken subjectID methodArg w) = Inr vr"
    and final: "result_final r = (indexOf (authSteps self) (vr_method vr) = int (length (authSteps self)) - 1)"
    and signed: "JWT_sign jwt
        \<lparr>claim_from = vr_method vr,
         claim_final = (indexOf (authSteps self) (vr_method vr) = int (length (authSteps self)) - 1)\<rparr>
        (tokenParameters_key self)
        \<lparr>sign_algorithm = ''HS256'', sign_expiresIn = ''8h'', sign_subject = subjectID\<rparr>
       = Inr (result_token r)"
    by blast
  from signed final have minted: "JWT_sign jwt \<lparr>claim_from = vr_method vr, claim_final = result_final r\<rparr>
      (tokenParameters_key self)
      \<lparr>sign_algorithm = ''HS256'', sign_expiresIn = ''8h'', sign_subject = subjectID\<rparr>
     = Inr (result_token r)"
    by simp
  with assms(1) have "JWT_verify jwt (result_token r) (tokenParameters_key self)
      \<lparr>verify_algorithms = [''HS256''], verify_subject = subjectID\<rparr>
     = Inr \<lparr>claim_from = vr_method vr, claim_final = result_final r\<rparr>"
    by blast
  with resolved final minted show ?thesis
    by blast
qed

theorem minted_token_decodes_witness:
  "getToken testJWT twoFactor None ''user1'' ''password1'' None w0
     = (Inr \<lparr>result_token = ''chess-verify=barrel.user1.0password'', result_final = False,
             result_next = JArr [JStr ''date'']\<rparr>,
        \<lparr>backend_state = (),
         trace = [Authenticate ''password'' ''user1'' ''password1'',
                  Sign \<lparr>claim_from = ''password'', claim_final = False\<rparr>]\<rparr>)
   \<and> JWT_verify testJWT ''chess-verify=barrel.user1.0password'' (tokenParameters_key twoFactor)
         \<lparr>verify_algorithms = [''HS256''], verify_subject = ''user1''\<rparr>
       = Inr \<lparr>claim_from = ''password'', claim_final = False\<rparr>"
proof -
  have resolved: "fst (verifyPreviousToken testJWT twoFactor None ''user1'' None w0)
      = Inr \<lparr>vr_payload = None, vr_method = ''password''\<rparr>"
    by (simp add: verifyPreviousToken_falsy resolve_without_token falsy_def at_def twoFactor_def)
  from minted_token_decodes [OF testJWT_decodes_minted twoFactor_first_call] resolved
  have "JWT_verify testJWT ''chess-verify=barrel.user1.0password'' (tokenParameters_key twoFactor)
         \<lparr>verify_algorithms = [''HS256''], verify_subject = ''user1''\<rparr>
       = Inr \<lparr>claim_from = ''password'', claim_final = False\<rparr>"
    by auto
  with twoFactor_first_call show ?thesis
    by simp
qed

section \<open>Order of the external calls\<close>

text \<open>
  Claim C7. When resolution succeeds and the back-end of the resolved method rejects,
  \<open>getToken\<close> returns the back-end's error as it is; the trace ends with the
  \<open>authenticate\<close> call and holds no signing event, so no token was minted. The manager
  itself has no state to leave behind: the model never returns a changed manager.
\<close>

theorem backend_rejection_propagates:
  assumes "verifyPreviousToken jwt self previousToken subjectID methodArg w = (Inr vr, w1)"
    and "authBackends self (vr_method vr) = Some b"
    and "backend_authenticate b subjectID secret (backend_state w) = (Inl e, s)"
  shows "getToken jwt self previousToken subjectID secret methodArg w =
           (Inl e, w\<lparr>backend_state := s,
                     trace := trace w @ resolution_events previousToken
                                @ [Authenticate (vr_method vr) subjectID secret]\<rparr>)
       \<and> list_all (\<lambda>ev. \<not> is_sign_event ev)
           (resolution_events previousToken @ [Authenticate (vr_method vr) subjectID secret])"
proof
  from assms(1) verifyPreviousToken_world [of jwt self previousToken subjectID "methodArg" "w"]
  have w1: "w1 = w\<lparr>trace := trace w @ resolution_events previousToken\<rparr>"
    by simp
  with assms show "getToken jwt self previousToken subjectID secret methodArg w =
      (Inl e, w\<lparr>backend_state := s,
                trace := trace w @ resolution_events previousToken
                           @ [Authenticate (vr_method vr) subjectID secret]\<rparr>)"
    by (simp add: getToken_def getTokenForSecret_def Let_def)
  show "list_all (\<lambda>ev. \<not> is_sign_event ev)
      (resolution_events previousToken @ [Authenticate (vr_method vr) subjectID secret])"
    by (simp add: resolution_events_def split: option.splits)
qed

theorem backend_rejection_propagates_witness:
  "verifyPreviousToken testJWT twoFactor None ''user1'' None w0
     = (Inr \<lparr>vr_payload = None, vr_method = ''password''\<rparr>, w0)
   \<and> authBackends twoFactor ''password'' = Some passwordBackend
   \<and> backend_authenticate passwordBackend ''user1'' ''badPassword'' (backend_state w0)
       = (Inl (Error ''Invalid password or no such user''), ())
   \<and> getToken testJWT twoFactor None ''user1'' ''badPassword'' None w0
       = (Inl (Error ''Invalid password or no such user''),
          \<lparr>backend_state = (), trace = [Authenticate ''password'' ''user1'' ''badPassword'']\<rparr>)"
proof -
  have resolved: "verifyPreviousToken testJWT twoFactor None ''user1'' None w0
      = (Inr \<lparr>vr_payload = None, vr_method = ''password''\<rparr>, w0)"
    by (simp add: verifyPreviousToken_falsy resolve_without_token falsy_def at_def twoFactor_def)
  have registered: "authBackends twoFactor (vr_method \<lparr>vr_payload = None, vr_method = ''password''\<rparr>)
      = Some passwordBackend"
    by (simp add: twoFactor_def)
  have rejected: "backend_authenticate passwordBackend ''user1'' ''badPassword'' (backend_state w0)
      = (Inl (Error ''Invalid password or no such user''), ())"
    by (simp add: passwordBackend_def passwords_def)
  from resolved registered rejected
    backend_rejection_propagates [OF resolved registered rejected]
  show ?thesis
    by (simp add: resolution_events_def w0_def)
qed

text \<open>
  Claim C8. Resolution leaves the back-end state alone and adds only its own verification
  event to the trace. When it fails, \<open>getToken\<close> and \<open>requestChallenge\<close> return its error and
  that world: no back-end was called. In every call the trace begins with the events of
  resolution, so whatever a back-end does comes after.
\<close>

theorem resolution_precedes_backends:
  "snd (verifyPreviousToken jwt self previousToken subjectID methodArg w)
     = w\<lparr>trace := trace w @ resolution_events previousToken\<rparr>
   \<and> list_all (\<lambda>ev. \<not> is_backend_event ev) (resolution_events previousToken)
   \<and> (fst (verifyPreviousToken jwt self previousToken subjectID methodArg w) = Inl e \<longrightarrow>
        getToken jwt self previousToken subjectID secret methodArg w
          = (Inl e, w\<lparr>trace := trace w @ resolution_events previousToken\<rparr>)
      \<and> requestChallenge jwt self subjectID previousToken methodArg w
          = (Inl e, w\<lparr>trace := trace w @ resolution_events previousToken\<rparr>))
   \<and> take (length (trace w @ resolution_events previousToken))
        (trace (snd (getToken jwt self previousToken subjectID secret methodArg w)))
       = trace w @ resolution_events previousToken
   \<and> take (length (trace w @ resolution_events previousToken))
        (trace (snd (requestChallenge jwt self subjectID previousToken methodArg w)))
       = trace w @ resolution_events previousToken"
proof (intro conjI impI)
  show world: "snd (verifyPreviousToken jwt self previousToken subjectID methodArg w)
      = w\<lparr>trace := trace w @ resolution_events previousToken\<rparr>"
    by (rule verifyPreviousToken_world)
  show "list_all (\<lambda>ev. \<not> is_backend_event ev) (resolution_events previousToken)"
    by (simp add: resolution_events_def split: option.splits)
  from getToken_trace_extends [of jwt self previousToken subjectID secret "methodArg" "w"] world
  show "take (length (trace w @ resolution_events previousToken))
        (trace (snd (getToken jwt self previousToken subjectID secret methodArg w)))
       = trace w @ resolution_events previousToken"
    by auto
  from requestChallenge_trace_extends [of jwt self subjectID previousToken "methodArg" "w"] world
  show "take (length (trace w @ resolution_events previousToken))
        (trace (snd (requestChallenge jwt self subjectID previousToken methodArg w)))
       = trace w @ resolution_events previousToken"
    by auto
  assume "fst (verifyPreviousToken jwt self previousToken subjectID methodArg w) = Inl e"
  with world have failed: "verifyPreviousToken jwt self previousToken subjectID methodArg w
      = (Inl e, w\<lparr>trace := trace w @ resolution_events previousToken\<rparr>)"
    by (simp add: prod_eq_iff)
  then show "getToken jwt self previousToken subjectID secret methodArg w
      = (Inl e, w\<lparr>trace := trace w @ resolution_events previousToken\<rparr>)"
    by (rule getToken_resolution_fails)
  from failed show "requestChallenge jwt self subjectID previousToken methodArg w
      = (Inl e, w\<lparr>trace := trace w @ resolution_events previousToken\<rparr>)"
    by (rule requestChallenge_resolution_fails)
qed

theorem resolution_precedes_backends_witness:
  "fst (verifyPreviousToken testJWT twoFactor (Some ''forged'') ''user1'' None w0)
     = Inl (JsonWebTokenError ''invalid signature'')
   \<and> getToken testJWT twoFactor (Some ''forged'') ''user1'' ''password1'' None w0
     = (Inl (JsonWebTokenError ''invalid signature''), \<lparr>backend_state = (), trace = [Verify ''forged'']\<rparr>)
   \<and> requestChallenge testJWT twoFactor ''user1'' (Some ''forged'') None w0
     = (Inl (JsonWebTokenError ''invalid signature''), \<lparr>backend_state = (), trace = [Verify ''forged'']\<rparr>)"
proof -
  have rejected: "fst (verifyPreviousToken testJWT twoFactor (Some ''forged'') ''user1'' None w0)
      = Inl (JsonWebTokenError ''invalid signature'')"
    by (simp add: verifyPreviousToken_def falsy_def testJWT_def twoFactor_def Let_def)
  from rejected
    resolution_precedes_backends [of testJWT twoFactor "Some ''forged''" "''user1''" "None" "w0"
      "JsonWebTokenError ''invalid signature''" "''password1''"]
  show ?thesis
    by (simp add: resolution_events_def w0_def)
qed

text \<open>
  Claim C10. When resolution succeeds and the chosen back-end has no \<open>requestChallenge\<close>,
  the call fails with the \<open>TypeError\<close> of calling a missing property; it does not return
  a challenge.
\<close>

theorem missing_requestChallenge_fails:
  assumes "verifyPreviousToken jwt self previousToken subjectID methodArg w = (Inr vr, w1)"
    and "authBackends self (vr_method vr) = Some b"
    and "backend_requestChallenge b = None"
  shows "requestChallenge jwt self subjectID previousToken methodArg w = (Inl TypeError, w1)"
  using assms by (simp add: requestChallenge_def)

theorem missing_requestChallenge_fails_witness:
  "verifyPreviousToken testJWT twoFactor None ''user1'' None w0
     = (Inr \<lparr>vr_payload = None, vr_method = ''password''\<rparr>, w0)
   \<and> authBackends twoFactor ''password'' = Some passwordBackend
   \<and> backend_requestChallenge (passwordBackend :: unit backend) = None
   \<and> requestChallenge testJWT twoFactor ''user1'' None None w0 = (Inl TypeError, w0)"
proof -
  have resolved: "verifyPreviousToken testJWT twoFactor None ''user1'' None w0
      = (Inr \<lparr>vr_payload = None, vr_method = ''password''\<rparr>, w0)"
    by (simp add: verifyPreviousToken_falsy resolve_without_token falsy_def at_def twoFactor_def)
  have registered: "authBackends twoFactor (vr_method \<lparr>vr_payload = None, vr_method = ''password''\<rparr>)
      = Some passwordBackend"
    by (simp add: twoFactor_def)
  have incapable: "backend_requestChallenge (passwordBackend :: unit backend) = None"
    by (simp add: passwordBackend_def)
  from resolved registered incapable
    missing_requestChallenge_fails [OF resolved registered incapable]
  show ?thesis
    by simp
qed

end
